theory Spec2Isabelle
  imports Complex_Main
begin

section \<open>Nurl: a command-line HTTP request tool (src/index.js)\<close>

text \<open>
  The program parses its command line with yargs (\<open>setupYargs\<close>), then issues one HTTP
  request and prints the response (\<open>sendRequest\<close>). The embedding below follows
  \<open>src/index.js\<close> function by function.

  Modelling conventions.
  \<^item> A text is a \<open>string\<close>: the list of the bytes of its UTF-8 encoding, which is how the
    command line and the file system hand it over. \<open>Buffer.byteLength\<close> of a text is its
    \<open>length\<close>. The characters that the program looks for (\<open>:\<close>, \<open>=\<close>, \<open>&\<close>, \<open>?\<close>, and the
    characters of the urlencoded pattern) are single bytes that stand in no longer sequence,
    so \<open>indexOf\<close>, \<open>substring\<close> and \<open>split\<close> cut the bytes where they cut the text.
  \<^item> The value of an option is a text, as yargs yields it for a value that does not look
    like a number.
  \<^item> A JavaScript object used as a dictionary is the list of its own properties in creation
    order, read through \<open>Object.prototype\<close> (see \<open>obj_get\<close>, \<open>obj_set\<close>, \<open>for_in\<close>).
  \<^item> \<open>console.log\<close> output is a list of printed lines; chalk's colouring is cosmetic and is
    left out, so \<open>chalk.keyword(c).inverse(s)\<close> and \<open>chalk.keyword(c)(s)\<close> are \<open>s\<close>.
  \<^item> The platform (the URL parser, the file system, \<open>JSON.parse\<close>, and the case mapping
    of \<open>String.prototype.toLowerCase\<close>, which covers every cased letter of Unicode) is a
    parameter.
  \<^item> A thrown \<open>Error\<close> is a value of type \<open>error\<close>; the constructor records which of the
    three failure kinds of the tool the throw site belongs to, the argument is the message.
\<close>

subsection \<open>JavaScript strings\<close>

text \<open>\<open>s.indexOf(c)\<close>: the first position of \<open>c\<close>, \<open>None\<close> for JavaScript's \<open>-1\<close>.\<close>

fun indexOf :: "char \<Rightarrow> string \<Rightarrow> nat option" where
  "indexOf c [] = None"
| "indexOf c (x # xs) =
     (if x = c then Some 0 else (case indexOf c xs of None \<Rightarrow> None | Some i \<Rightarrow> Some (Suc i)))"

text \<open>\<open>s.split(c)\<close>: always at least one piece; \<open>''''.split(c)\<close> is \<open>['''']\<close>.\<close>

fun str_split :: "char \<Rightarrow> string \<Rightarrow> string list" where
  "str_split c [] = [[]]"
| "str_split c (x # xs) =
     (if x = c then [] # str_split c xs
      else (case str_split c xs of [] \<Rightarrow> [[x]] | p # ps \<Rightarrow> (x # p) # ps))"

text \<open>\<open>s.substring(0, s.length - 1)\<close>: all but the last character (nothing of an empty text).\<close>

definition drop_last :: "string \<Rightarrow> string" where
  "drop_last s = take (length s - 1) s"

subsection \<open>JavaScript objects used as dictionaries\<close>

text \<open>
  \<open>{}\<close> inherits from \<open>Object.prototype\<close>. Reading \<open>o[k]\<close> for a key that \<open>o\<close> does not
  own finds the member of \<open>Object.prototype\<close> of that name, if there is one, and is
  \<open>undefined\<close> otherwise.
\<close>

type_synonym 'v obj = "(string \<times> 'v) list"

definition object_prototype_names :: "string list" where
  "object_prototype_names =
     [''constructor'', ''__defineGetter__'', ''__defineSetter__'', ''hasOwnProperty'',
      ''__lookupGetter__'', ''__lookupSetter__'', ''isPrototypeOf'', ''propertyIsEnumerable'',
      ''toString'', ''valueOf'', ''__proto__'', ''toLocaleString'']"

datatype 'v lookup = Undefined | Inherited | Own 'v

definition obj_get :: "'v obj \<Rightarrow> string \<Rightarrow> 'v lookup" where
  "obj_get ob k =
     (case map_of ob k of
        Some v \<Rightarrow> Own v
      | None \<Rightarrow> if k \<in> set object_prototype_names then Inherited else Undefined)"

fun own_set :: "string \<Rightarrow> 'v \<Rightarrow> 'v obj \<Rightarrow> 'v obj" where
  "own_set k v [] = [(k, v)]"
| "own_set k v (p # ps) = (if fst p = k then (k, v) # ps else p # own_set k v ps)"

text \<open>
  \<open>o[k] = v\<close> for a text \<open>v\<close>: an own property keeps its place, a new one goes last. The
  key \<open>__proto__\<close> runs the setter of \<open>Object.prototype\<close>, which ignores a value that is not
  an object.
\<close>

definition obj_set :: "string \<Rightarrow> 'v \<Rightarrow> 'v obj \<Rightarrow> 'v obj" where
  "obj_set k v ob = (if k = ''__proto__'' then ob else own_set k v ob)"

text \<open>
  \<open>for (const key in o)\<close>: the keys that are array indices (canonical decimal numerals
  below \<open>2^32 - 1\<close>) in ascending numeric order, then the other keys in creation order.
  \<open>Object.prototype\<close> has no enumerable member.
\<close>

definition is_digit :: "char \<Rightarrow> bool" where
  "is_digit c = (let n = (of_char c :: nat) in 48 \<le> n \<and> n \<le> 57)"

definition numeric_value :: "string \<Rightarrow> nat" where
  "numeric_value s = foldl (\<lambda>n c. 10 * n + ((of_char c :: nat) - 48)) 0 s"

definition is_array_index :: "string \<Rightarrow> bool" where
  "is_array_index s =
     (s \<noteq> [] \<and> list_all is_digit s \<and> (s = ''0'' \<or> hd s \<noteq> CHR ''0'')
      \<and> numeric_value s < 4294967295)"

definition for_in :: "'v obj \<Rightarrow> (string \<times> 'v) list" where
  "for_in ob =
     sort_key (\<lambda>p. numeric_value (fst p)) (filter (\<lambda>p. is_array_index (fst p)) ob)
     @ filter (\<lambda>p. \<not> is_array_index (fst p)) ob"

subsection \<open>Logging helpers\<close>

definition logWARN :: "string \<Rightarrow> string" where
  "logWARN text = ''WARNING'' @ '': '' @ text"

definition logERRORWrapper :: "string \<Rightarrow> string" where
  "logERRORWrapper text = ''ERROR'' @ '': '' @ text"

subsection \<open>The platform\<close>

record url =
  hostname :: string
  port :: string
  pathname :: string
  search :: string

text \<open>
  \<open>new URL(s)\<close>, \<open>fs.readFileSync(path.resolve(p))\<close> and \<open>JSON.parse(s)\<close>: \<open>Inl\<close> carries the
  message of the exception thrown. \<open>toLowerCase\<close> is \<open>String.prototype.toLowerCase\<close>: the
  text with every cased letter replaced by its lower case, in the encoding of the texts.
\<close>

record platform =
  new_URL :: "string \<Rightarrow> string + url"
  readFileSync :: "string \<Rightarrow> string + string"
  JSON_parses :: "string \<Rightarrow> bool"
  toLowerCase :: "string \<Rightarrow> string"

subsection \<open>The \<open>headers\<close> option (coerce, lines 42-58)\<close>

datatype hval = HStr string | HNum nat

text \<open>One round of the loop: the object built so far and the lines printed so far.\<close>

definition header_step ::
  "platform \<Rightarrow> hval obj \<times> string list \<Rightarrow> string \<Rightarrow> hval obj \<times> string list" where
  "header_step pf st header =
     (case indexOf CHR '':'' header of
        None \<Rightarrow> (fst st, snd st @ [logWARN (''Invalid header '' @ header)])
      | Some splitPoint \<Rightarrow>
          (let key = toLowerCase pf (take splitPoint header);
               val = drop (splitPoint + 1) header;
               out = (if obj_get (fst st) key \<noteq> Undefined
                      then snd st @ [logWARN (''Overwriting header key for '' @ key)]
                      else snd st)
           in (obj_set key (HStr val) (fst st), out)))"

definition coerce_headers :: "platform \<Rightarrow> string list \<Rightarrow> hval obj \<times> string list" where
  "coerce_headers pf headers = foldl (header_step pf) ([], []) headers"

subsection \<open>The \<open>queries\<close> option (coerce, lines 65-84)\<close>

definition query_part_step :: "string obj \<times> string list \<Rightarrow> string \<Rightarrow> string obj \<times> string list" where
  "query_part_step st part =
     (case indexOf CHR ''='' part of
        None \<Rightarrow> (fst st, snd st @ [logWARN (''Invalid query parameter '' @ part)])
      | Some splitPoint \<Rightarrow>
          (let key = take splitPoint part;
               val = drop (splitPoint + 1) part;
               out = (if obj_get (fst st) key \<noteq> Undefined
                      then snd st @ [logWARN (''Overwriting query key for '' @ key)]
                      else snd st)
           in (obj_set key val (fst st), out)))"

definition query_step :: "string obj \<times> string list \<Rightarrow> string \<Rightarrow> string obj \<times> string list" where
  "query_step st query = foldl query_part_step st (str_split CHR ''&'' query)"

definition coerce_queries :: "string list \<Rightarrow> string obj \<times> string list" where
  "coerce_queries queries = foldl query_step ([], []) queries"

subsection \<open>The urlencoded pattern (line 7)\<close>

text \<open>
  \<open>/^([\w-%]+=[\w-%]*)(&[\w-%]+=[\w-%]*)*$/\<close>. The class holds the word characters, the
  hyphen and the percent sign, so neither \<open>=\<close> nor \<open>&\<close>: a text matches exactly when each
  of its \<open>&\<close>-separated pieces is a non-empty run of the class, \<open>=\<close>, and a run of the class.
\<close>

definition urlencoded_char :: "char \<Rightarrow> bool" where
  "urlencoded_char c =
     (let n = (of_char c :: nat)
      in (65 \<le> n \<and> n \<le> 90) \<or> (97 \<le> n \<and> n \<le> 122) \<or> (48 \<le> n \<and> n \<le> 57) \<or> n = 95
         \<or> n = 45 \<or> n = 37)"

definition urlencoded_pair :: "string \<Rightarrow> bool" where
  "urlencoded_pair p =
     (case indexOf CHR ''='' p of
        None \<Rightarrow> False
      | Some i \<Rightarrow> 0 < i \<and> list_all urlencoded_char (take i p)
                  \<and> list_all urlencoded_char (drop (i + 1) p))"

definition urlencodedRegex_test :: "string \<Rightarrow> bool" where
  "urlencodedRegex_test s = list_all urlencoded_pair (str_split CHR ''&'' s)"

subsection \<open>The command line\<close>

datatype http_method = GET | POST | PUT | PATCH | DELETE

text \<open>
  A JavaScript number, as far as \<open>isNaN\<close> tells numbers apart. yargs turns the value of an
  option of type \<open>number\<close> that is not numeric into \<open>NaN\<close>.
\<close>

datatype js_number = NaN | Infinity | NegInfinity | Finite rat

text \<open>
  What yargs has parsed before the coerce functions and the checks run. \<open>None\<close> is
  \<open>undefined\<close>: the option was not given. yargs is not strict, so an option that was never
  declared, such as \<open>--body\<close>, is parsed too.
\<close>

record raw_argv =
  raw_positional :: "string list"
  raw_method :: http_method
  raw_headers :: "string list"
  raw_queries :: "string list"
  raw_data :: "string option"
  raw_json :: "string option"
  raw_file :: "string option"
  raw_body :: "string option"
  raw_timeout :: "js_number option"

record args =
  arg_positional :: "string list"
  arg_method :: http_method
  arg_headers :: "hval obj"
  arg_queries :: "string obj"
  arg_data :: "string option"
  arg_json :: "string option"
  arg_file :: "string option"
  arg_body :: "string option"
  arg_timeout :: "js_number option"

datatype error = InvalidArgument string | ConflictingOptions string | FileAccessError string

fun message :: "error \<Rightarrow> string" where
  "message (InvalidArgument m) = m"
| "message (ConflictingOptions m) = m"
| "message (FileAccessError m) = m"

subsection \<open>The checks of \<open>setupYargs\<close>\<close>

text \<open>A check prints warnings and either returns \<open>true\<close> (\<open>None\<close>) or throws.\<close>

type_synonym check = "string list \<times> error option"

definition check_url :: "platform \<Rightarrow> string list \<Rightarrow> check" where
  "check_url pf us =
     (case us of
        [u] \<Rightarrow> (case new_URL pf u of
                  Inl m \<Rightarrow> ([], Some (InvalidArgument (logERRORWrapper m)))
                | Inr _ \<Rightarrow> ([], None))
      | _ \<Rightarrow> ([], Some (InvalidArgument (logERRORWrapper ''You must provide a url''))))"

definition check_data :: "string option \<Rightarrow> string option \<Rightarrow> string option \<Rightarrow> check" where
  "check_data data json file =
     (if data \<noteq> None \<and> (json \<noteq> None \<or> file \<noteq> None)
      then ([], Some (ConflictingOptions (logERRORWrapper
              ''Simultaneous usage of data and json or data and file is not permitted'')))
      else (case data of
              None \<Rightarrow> ([], None)
            | Some d \<Rightarrow> (if \<not> urlencodedRegex_test d
                         then [logWARN ''Invalid urlencoded body!''] else [], None)))"

definition check_json :: "platform \<Rightarrow> string option \<Rightarrow> string option \<Rightarrow> string option \<Rightarrow> check" where
  "check_json pf data json file =
     (if json \<noteq> None \<and> (data \<noteq> None \<or> file \<noteq> None)
      then ([], Some (ConflictingOptions (logERRORWrapper
              ''Simultaneous usage of json and data or json and file is not permitted'')))
      else (case json of
              None \<Rightarrow> ([], None)
            | Some j \<Rightarrow> (if \<not> JSON_parses pf j then [logWARN ''Invalid JSON body''] else [], None)))"

definition check_file :: "platform \<Rightarrow> string option \<Rightarrow> string option \<Rightarrow> string option \<Rightarrow> check" where
  "check_file pf data json file =
     (if file \<noteq> None \<and> (data \<noteq> None \<or> json \<noteq> None)
      then ([], Some (ConflictingOptions (logERRORWrapper
              ''Simultaneous usage of file and data or file and json is not permitted'')))
      else (case file of
              None \<Rightarrow> ([], None)
            | Some f \<Rightarrow> (case readFileSync pf f of
                           Inl m \<Rightarrow> ([], Some (FileAccessError (logERRORWrapper m)))
                         | Inr _ \<Rightarrow> ([], None))))"

text \<open>\<open>isNaN(x)\<close> converts \<open>x\<close> to a number first, and \<open>undefined\<close> converts to \<open>NaN\<close>.\<close>

fun isNaN :: "js_number option \<Rightarrow> bool" where
  "isNaN None = True"
| "isNaN (Some NaN) = True"
| "isNaN (Some _) = False"

definition check_timeout :: "js_number option \<Rightarrow> check" where
  "check_timeout timeout =
     (if isNaN timeout
      then ([], Some (InvalidArgument (logERRORWrapper ''Timeout must be a number'')))
      else ([], None))"

text \<open>
  yargs runs the checks in the order of their registration; at the first one that throws it
  prints the message and exits. The coerce functions have run before; in which order the
  warnings of the two stand among the printed lines is left to yargs, and no statement below
  depends on it.
\<close>

fun run_checks :: "check list \<Rightarrow> check" where
  "run_checks [] = ([], None)"
| "run_checks (c # cs) =
     (case snd c of
        Some e \<Rightarrow> (fst c, Some e)
      | None \<Rightarrow> (fst c @ fst (run_checks cs), snd (run_checks cs)))"

definition setupYargs :: "platform \<Rightarrow> raw_argv \<Rightarrow> string list \<times> (error + args)" where
  "setupYargs pf raw =
     (let hs = coerce_headers pf (raw_headers raw);
          qs = coerce_queries (raw_queries raw);
          r = run_checks
                [check_url pf (raw_positional raw),
                 check_data (raw_data raw) (raw_json raw) (raw_file raw),
                 check_json pf (raw_data raw) (raw_json raw) (raw_file raw),
                 check_file pf (raw_data raw) (raw_json raw) (raw_file raw),
                 check_timeout (raw_timeout raw)]
      in (snd hs @ snd qs @ fst r,
          case snd r of
            Some e \<Rightarrow> Inl e
          | None \<Rightarrow> Inr \<lparr>arg_positional = raw_positional raw, arg_method = raw_method raw,
                         arg_headers = fst hs, arg_queries = fst qs, arg_data = raw_data raw,
                         arg_json = raw_json raw, arg_file = raw_file raw,
                         arg_body = raw_body raw, arg_timeout = raw_timeout raw\<rparr>))"

subsection \<open>\<open>sendRequest\<close>: header defaults (lines 148-159)\<close>

text \<open>\<open>if (x)\<close> for an optional text: \<open>undefined\<close> and the empty text are falsy.\<close>

fun truthy :: "string option \<Rightarrow> bool" where
  "truthy None = False"
| "truthy (Some s) = (s \<noteq> [])"

fun text_of :: "string option \<Rightarrow> string" where
  "text_of None = []"
| "text_of (Some s) = s"

text \<open>
  The two assignments that each of the three branches makes, for its own content type and
  its own payload length.
\<close>

definition set_defaults :: "string \<Rightarrow> nat \<Rightarrow> http_method \<Rightarrow> hval obj \<Rightarrow> hval obj" where
  "set_defaults ctype n method headers =
     (let h1 = (if obj_get headers ''content-type'' = Undefined
                then obj_set ''content-type'' (HStr ctype) headers else headers)
      in if obj_get h1 ''content-length'' = Undefined \<and> method \<noteq> GET
         then obj_set ''content-length'' (HNum n) h1 else h1)"

text \<open>
  The result is the headers after the defaults and the bytes of the file, if one was read.
  \<open>readFileSync\<close> stands outside the \<open>try\<close>: when it throws, the call is over (\<open>Inl\<close>).
\<close>

definition body_defaults ::
  "platform \<Rightarrow> http_method \<Rightarrow> hval obj \<Rightarrow> string option \<Rightarrow> string option \<Rightarrow> string option
     \<Rightarrow> string + (hval obj \<times> string option)" where
  "body_defaults pf method headers body json filePath =
     (if truthy body
      then Inr (set_defaults ''application/x-www-form-urlencoded'' (length (text_of body))
                  method headers, None)
      else if truthy json
      then Inr (set_defaults ''application/json'' (length (text_of json)) method headers, None)
      else if truthy filePath
      then (case readFileSync pf (text_of filePath) of
              Inl m \<Rightarrow> Inl m
            | Inr bytes \<Rightarrow>
                Inr (set_defaults ''application/octet-stream'' (length bytes) method headers,
                     Some bytes))
      else Inr (headers, None))"

subsection \<open>\<open>sendRequest\<close>: the request path (lines 161-168)\<close>

text \<open>
  \<open>queries.length !== 0\<close>: \<open>queries\<close> is the object that the coerce function returns, so
  \<open>queries.length\<close> is \<open>undefined\<close>, or the text given for a key \<open>length\<close>; neither is
  strictly equal to the number \<open>0\<close>.
\<close>

definition length_not_zero :: "string obj \<Rightarrow> bool" where
  "length_not_zero queries =
     (case obj_get queries ''length'' of Undefined \<Rightarrow> True | Inherited \<Rightarrow> True | Own s \<Rightarrow> True)"

definition requestPath :: "string \<Rightarrow> string obj \<Rightarrow> string" where
  "requestPath pathname_of_url queries =
     (if length_not_zero queries
      then drop_last
             (foldl (\<lambda>p kv. p @ fst kv @ ''='' @ snd kv @ ''&'') (pathname_of_url @ ''?'')
                (for_in queries))
      else pathname_of_url)"

subsection \<open>\<open>sendRequest\<close>: the calls made to \<open>http\<close> (lines 170-211)\<close>

record request_options =
  opt_hostname :: string
  opt_port :: string
  opt_path :: string
  opt_headers :: "hval obj"
  opt_method :: http_method
  opt_timeout :: "js_number option"

text \<open>
  One exchange: the options given to \<open>http.request\<close>, and what \<open>request.write\<close> was given
  before \<open>request.end()\<close> (\<open>None\<close>: nothing was written).
\<close>

record exchange =
  options :: request_options
  written :: "string option"

definition sendRequest ::
  "platform \<Rightarrow> url \<Rightarrow> http_method \<Rightarrow> hval obj \<Rightarrow> string obj \<Rightarrow> string option \<Rightarrow> string option
     \<Rightarrow> string option \<Rightarrow> js_number option \<Rightarrow> string + exchange" where
  "sendRequest pf u method headers queries body json filePath timeout =
     (case body_defaults pf method headers body json filePath of
        Inl m \<Rightarrow> Inl m
      | Inr (headers', file) \<Rightarrow>
          Inr \<lparr>options = \<lparr>opt_hostname = hostname u, opt_port = ''80'',
                           opt_path = requestPath (pathname u) queries,
                           opt_headers = headers', opt_method = method,
                           opt_timeout = timeout\<rparr>,
               written = (if truthy body then body
                          else if truthy json then json
                          else file)\<rparr>)"

subsection \<open>Rendering the response (lines 185-196)\<close>

text \<open>
  The response handed to the callback of \<open>http.request\<close>. \<open>res_method\<close> is \<open>res.method\<close>,
  which Node sets only on a request that a server receives: on the response that a client
  receives it is \<open>null\<close> (\<open>None\<close>), printed as \<open>null\<close>.
\<close>

record response =
  res_method :: "string option"
  statusCode :: nat
  statusMessage :: string
  res_headers :: "string obj"

fun or_null :: "string option \<Rightarrow> string" where
  "or_null None = ''null''"
| "or_null (Some s) = s"

function decimal :: "nat \<Rightarrow> string" where
  "decimal n = (if n < 10 then [char_of (48 + n)] else decimal (n div 10) @ [char_of (48 + n mod 10)])"
  by pat_completeness auto
termination
  by (relation "measure id") auto

definition on_end :: "response \<Rightarrow> string list \<Rightarrow> string list" where
  "on_end res rawBody =
     (let body = concat rawBody
      in [[],
          ''-----------------RESPONSE-------------------'',
          ''METHOD'' @ '': '' @ or_null (res_method res),
          ''STATUS'' @ '': '' @ decimal (statusCode res) @ '' - '' @ statusMessage res,
          ''HEADERS'' @ '': '']
         @ map (\<lambda>h. [CHR 0x09] @ fst h @ '': '' @ snd h) (for_in (res_headers res))
         @ [''BODY'' @ '': '' @ body])"

subsection \<open>\<open>main\<close> (lines 218-224)\<close>

text \<open>
  What one run prints before any response arrives, and the exchange it starts, if any.
  When \<open>setupYargs\<close> fails, yargs prints the message (after its usage text, which is left
  out) and the process exits. An exception of \<open>new URL\<close> or of \<open>sendRequest\<close> reaches the
  process-level handler, which prints it.
\<close>

record outcome =
  printed :: "string list"
  sent :: "exchange option"

definition main :: "platform \<Rightarrow> raw_argv \<Rightarrow> outcome" where
  "main pf raw =
     (case setupYargs pf raw of
        (out, Inl e) \<Rightarrow> \<lparr>printed = out @ [message e], sent = None\<rparr>
      | (out, Inr a) \<Rightarrow>
          (case arg_positional a of
             [] \<Rightarrow> \<lparr>printed = out @ [logERRORWrapper ''Invalid URL''], sent = None\<rparr>
           | u0 # _ \<Rightarrow>
               (case new_URL pf u0 of
                  Inl m \<Rightarrow> \<lparr>printed = out @ [logERRORWrapper m], sent = None\<rparr>
                | Inr u \<Rightarrow>
                    (case sendRequest pf u (arg_method a) (arg_headers a) (arg_queries a)
                            (arg_body a) (arg_json a) (arg_file a) (arg_timeout a) of
                       Inl m \<Rightarrow> \<lparr>printed = out @ [logERRORWrapper m], sent = None\<rparr>
                     | Inr x \<Rightarrow> \<lparr>printed = out, sent = Some x\<rparr>))))"

subsection \<open>Notions used in the statements\<close>

text \<open>\<open>texts.join('&')\<close>: the texts in order, with one \<open>&\<close> between neighbours.\<close>

fun join_amp :: "string list \<Rightarrow> string" where
  "join_amp [] = []"
| "join_amp [x] = x"
| "join_amp (x # y # ys) = x @ ''&'' @ join_amp (y # ys)"

text \<open>No value of the object holds the character \<open>c\<close>.\<close>

definition values_without :: "char \<Rightarrow> string obj \<Rightarrow> bool" where
  "values_without c ob = list_all (\<lambda>kv. c \<notin> set (snd kv)) ob"

text \<open>
  The key and the value that the loop of the \<open>headers\<close> option reads off one header text
  (lines 45, 50 and 51), and the two warnings it prints.
\<close>

definition header_key :: "platform \<Rightarrow> string \<Rightarrow> string option" where
  "header_key pf header =
     (case indexOf CHR '':'' header of
        None \<Rightarrow> None
      | Some splitPoint \<Rightarrow> Some (toLowerCase pf (take splitPoint header)))"

definition header_value :: "string \<Rightarrow> string" where
  "header_value header =
     (case indexOf CHR '':'' header of
        None \<Rightarrow> []
      | Some splitPoint \<Rightarrow> drop (splitPoint + 1) header)"

definition invalid_line :: "string \<Rightarrow> string" where
  "invalid_line header = logWARN (''Invalid header '' @ header)"

definition overwrite_line :: "string \<Rightarrow> string" where
  "overwrite_line key = logWARN (''Overwriting header key for '' @ key)"

text \<open>How often the overwrite warning for the key \<open>k\<close> stands among the printed lines.\<close>

definition overwrite_warnings :: "string \<Rightarrow> string list \<Rightarrow> nat" where
  "overwrite_warnings k out = count_list out (logWARN (''Overwriting header key for '' @ k))"

text \<open>Two or more of \<open>data\<close>, \<open>json\<close> and \<open>file\<close> are given.\<close>

definition conflicting :: "raw_argv \<Rightarrow> bool" where
  "conflicting raw =
     ((raw_data raw \<noteq> None \<and> raw_json raw \<noteq> None)
      \<or> (raw_data raw \<noteq> None \<and> raw_file raw \<noteq> None)
      \<or> (raw_json raw \<noteq> None \<and> raw_file raw \<noteq> None))"

text \<open>
  On a text of ASCII characters, \<open>String.prototype.toLowerCase\<close> replaces the letters A to Z
  by a to z and keeps every other character.
\<close>

definition ascii_toLowerCase_char :: "char \<Rightarrow> char" where
  "ascii_toLowerCase_char c =
     (let n = (of_char c :: nat) in if 65 \<le> n \<and> n \<le> 90 then char_of (n + 32) else c)"

definition ascii_toLowerCase :: "string \<Rightarrow> string" where
  "ascii_toLowerCase s = map ascii_toLowerCase_char s"

text \<open>
  A platform and a command line for worked examples, all of ASCII texts: the platform
  parses one URL, reads one file, of three bytes, and lowers the letters A to Z; the command
  line is \<open>nurl http://example.com/search?x=1 --timeout 5\<close>.
\<close>

definition example_url :: url where
  "example_url =
     \<lparr>hostname = ''example.com'', port = [], pathname = ''/search'', search = ''?x=1''\<rparr>"

definition example_platform :: platform where
  "example_platform =
     \<lparr>new_URL = (\<lambda>s. if s = ''http://example.com/search?x=1'' then Inr example_url
                      else Inl ''Invalid URL''),
      readFileSync = (\<lambda>p. if p = ''body.bin'' then Inr ''abc''
                           else Inl ''ENOENT: no such file or directory''),
      JSON_parses = (\<lambda>s. s = ''{}''),
      toLowerCase = ascii_toLowerCase\<rparr>"

definition example_argv :: raw_argv where
  "example_argv =
     \<lparr>raw_positional = [''http://example.com/search?x=1''], raw_method = GET,
      raw_headers = [], raw_queries = [], raw_data = None, raw_json = None, raw_file = None,
      raw_body = None, raw_timeout = Some (Finite 5)\<rparr>"

section \<open>Properties\<close>

subsection \<open>Objects\<close>

lemma map_of_own_set: "map_of (own_set k v ob) k' = (if k' = k then Some v else map_of ob k')"
  by (induction ob) auto

lemma obj_get_obj_set_same:
  "k \<noteq> ''__proto__'' \<Longrightarrow> obj_get (obj_set k v ob) k = Own v"
  by (simp add: obj_get_def obj_set_def map_of_own_set)

lemma obj_get_obj_set_other:
  "k' \<noteq> k \<Longrightarrow> obj_get (obj_set k v ob) k' = obj_get ob k'"
  by (simp add: obj_get_def obj_set_def map_of_own_set)

lemma set_own_set: "set (own_set k v ob) \<subseteq> insert (k, v) (set ob)"
  by (induction ob) auto

lemma set_obj_set: "set (obj_set k v ob) \<subseteq> insert (k, v) (set ob)"
  using set_own_set [of k v ob] by (auto simp: obj_set_def)

lemma not_inherited_get:
  "k \<notin> set object_prototype_names \<Longrightarrow>
     obj_get ob k = (case map_of ob k of None \<Rightarrow> Undefined | Some v \<Rightarrow> Own v)"
  by (simp add: obj_get_def split: option.split)

lemma not_inherited_not_proto: "k \<notin> set object_prototype_names \<Longrightarrow> k \<noteq> ''__proto__''"
  by (auto simp: object_prototype_names_def)

lemma set_for_in: "set (for_in q) = set q"
  by (auto simp: for_in_def)

lemma for_in_Nil_iff: "for_in q = [] \<longleftrightarrow> q = []"
  using set_for_in [of q] by (metis set_empty)

lemma for_in_plain:
  "list_all (\<lambda>p. \<not> is_array_index (fst p)) q \<Longrightarrow> for_in q = q"
  by (simp add: for_in_def list_all_iff filter_empty_conv filter_id_conv)

subsection \<open>Evaluation on concrete inputs\<close>

lemma char_eq_char_of_iff: "c = char_of (n :: nat) \<longleftrightarrow> take_bit 8 n = of_char c"
  using char_of_eq_iff [of n c] by auto

lemmas header_eval =
  coerce_headers_def header_step_def ascii_toLowerCase_def ascii_toLowerCase_char_def
  example_platform_def char_of_eq_iff
  char_eq_char_of_iff obj_get_def obj_set_def object_prototype_names_def logWARN_def
  overwrite_warnings_def header_key_def header_value_def Let_def

lemmas check_eval =
  check_url_def check_data_def check_json_def check_file_def check_timeout_def
  example_platform_def example_url_def example_argv_def logERRORWrapper_def logWARN_def
  urlencodedRegex_test_def urlencoded_pair_def urlencoded_char_def

lemma coerce_queries_example:
  "coerce_queries [''a=1&b=2''] = ([(''a'', ''1''), (''b'', ''2'')], [])"
  by (simp add: coerce_queries_def query_step_def query_part_step_def obj_get_def obj_set_def
      object_prototype_names_def)

subsection \<open>The request path\<close>

lemma foldl_append_pairs:
  "foldl (\<lambda>p kv. p @ fst kv @ ''='' @ snd kv @ ''&'') acc es
     = acc @ concat (map (\<lambda>kv. fst kv @ ''='' @ snd kv @ ''&'') es)"
  by (induction es arbitrary: acc) simp_all

lemma concat_pairs_join:
  "es \<noteq> [] \<Longrightarrow>
     concat (map (\<lambda>kv. fst kv @ ''='' @ snd kv @ ''&'') es)
       = join_amp (map (\<lambda>kv. fst kv @ ''='' @ snd kv) es) @ ''&''"
proof (induction es)
  case Nil
  then show ?case by simp
next
  case (Cons a es)
  then show ?case by (cases es) simp_all
qed

lemma drop_last_snoc: "drop_last (xs @ [c]) = xs"
  by (simp add: drop_last_def)

lemma length_not_zero_True: "length_not_zero q"
  by (simp add: length_not_zero_def split: lookup.split)

lemma requestPath_closed_form:
  "requestPath p q =
     (if for_in q = [] then p
      else p @ ''?'' @ join_amp (map (\<lambda>kv. fst kv @ ''='' @ snd kv) (for_in q)))"
proof (cases "for_in q = []")
  case True
  then show ?thesis
    using drop_last_snoc [of p "CHR ''?''"]
    by (simp add: requestPath_def length_not_zero_True)
next
  case False
  have "foldl (\<lambda>p kv. p @ fst kv @ ''='' @ snd kv @ ''&'') (p @ ''?'') (for_in q)
          = (p @ ''?'') @ concat (map (\<lambda>kv. fst kv @ ''='' @ snd kv @ ''&'') (for_in q))"
    by (rule foldl_append_pairs)
  also have "\<dots> = (p @ ''?'' @ join_amp (map (\<lambda>kv. fst kv @ ''='' @ snd kv) (for_in q))) @ [CHR ''&'']"
    using concat_pairs_join [OF False] by simp
  finally have "requestPath p q
      = drop_last ((p @ ''?'' @ join_amp (map (\<lambda>kv. fst kv @ ''='' @ snd kv) (for_in q))) @ [CHR ''&''])"
    by (simp only: requestPath_def length_not_zero_True if_True)
  then show ?thesis
    using False by (simp only: drop_last_snoc if_False)
qed

lemma requestPath_empty: "requestPath p [] = p"
  by (simp add: requestPath_closed_form for_in_def)

lemma requestPath_no_queries: "requestPath p (fst (coerce_queries [])) = p"
  by (simp add: coerce_queries_def requestPath_empty)

lemma join_amp_ends_with_last:
  "ss \<noteq> [] \<Longrightarrow> \<exists>pre. join_amp ss = pre @ last ss"
proof (induction ss rule: join_amp.induct)
  case 1
  then show ?case by simp
next
  case (2 x)
  show ?case by simp
next
  case (3 x y ys)
  then obtain pre where "join_amp (y # ys) = pre @ last (y # ys)"
    by auto
  then have "join_amp (x # y # ys) = (x @ ''&'' @ pre) @ last (x # y # ys)"
    by simp
  then show ?case by blast
qed

lemma requestPath_ends_with_last_pair:
  assumes "q \<noteq> []"
  shows "\<exists>pre. requestPath p q
           = p @ ''?'' @ pre @ fst (last (for_in q)) @ ''='' @ snd (last (for_in q))"
proof -
  let ?ss = "map (\<lambda>kv. fst kv @ ''='' @ snd kv) (for_in q)"
  from assms have ne: "for_in q \<noteq> []"
    by (simp add: for_in_Nil_iff)
  then have "?ss \<noteq> []"
    by simp
  then obtain pre where "join_amp ?ss = pre @ last ?ss"
    using join_amp_ends_with_last by blast
  moreover have "last ?ss = fst (last (for_in q)) @ ''='' @ snd (last (for_in q))"
    using ne by (simp add: last_map)
  ultimately have "requestPath p q
      = p @ ''?'' @ pre @ fst (last (for_in q)) @ ''='' @ snd (last (for_in q))"
    using ne by (simp only: requestPath_closed_form if_False)
  then show ?thesis by blast
qed

lemma requestPath_not_bare_question_mark: "requestPath p q \<noteq> p @ ''?''"
proof (cases "q = []")
  case True
  then show ?thesis
    by (simp add: requestPath_closed_form for_in_def)
next
  case False
  then obtain pre where
    "requestPath p q = p @ ''?'' @ pre @ fst (last (for_in q)) @ ''='' @ snd (last (for_in q))"
    using requestPath_ends_with_last_pair by blast
  then show ?thesis by simp
qed

text \<open>
  Claim C7. For the URL path \<open>/search\<close> and the query object that \<open>--queries "a=1&b=2"\<close>
  yields, the request path is \<open>/search?a=1&b=2\<close>. In general the request path is the
  path of the URL and, when the query object has a property, \<open>?\<close> and the texts
  \<open>key=value\<close> of its properties, in the order in which \<open>for ... in\<close> visits them, joined
  by \<open>&\<close>: the separator after the last one is cut off.
\<close>

theorem request_path_from_queries:
  "requestPath ''/search'' (fst (coerce_queries [''a=1&b=2''])) = ''/search?a=1&b=2''
   \<and> requestPath p q =
       (if for_in q = [] then p
        else p @ ''?'' @ join_amp (map (\<lambda>kv. fst kv @ ''='' @ snd kv) (for_in q)))"
proof -
  have "for_in [(''a'', ''1''), (''b'', ''2'')] = [(''a'', ''1''), (''b'', ''2'')]"
    by (rule for_in_plain) (simp add: is_array_index_def is_digit_def)
  then have "requestPath ''/search'' (fst (coerce_queries [''a=1&b=2''])) = ''/search?a=1&b=2''"
    by (simp add: coerce_queries_example requestPath_closed_form)
  then show ?thesis
    using requestPath_closed_form [of p q] by simp
qed

text \<open>
  An instance with keys that are array indices: \<open>for ... in\<close> visits \<open>2\<close> and \<open>10\<close> first,
  in numeric order, then \<open>b\<close>.
\<close>

theorem request_path_from_queries_witness:
  "requestPath ''/p'' (fst (coerce_queries [''b=1&10=y'', ''2=x''])) = ''/p?2=x&10=y&b=1''"
proof -
  have parsed: "fst (coerce_queries [''b=1&10=y'', ''2=x''])
                  = [(''b'', ''1''), (''10'', ''y''), (''2'', ''x'')]"
    by (simp add: coerce_queries_def query_step_def query_part_step_def obj_get_def obj_set_def
        object_prototype_names_def)
  have order: "for_in [(''b'', ''1''), (''10'', ''y''), (''2'', ''x'')]
                 = [(''2'', ''x''), (''10'', ''y''), (''b'', ''1'')]"
    by (simp add: for_in_def is_array_index_def is_digit_def numeric_value_def)
  show ?thesis
    using request_path_from_queries
      [of "''/p''" "[(''b'', ''1''), (''10'', ''y''), (''2'', ''x'')]"]
    by (simp add: parsed order)
qed

subsection \<open>No separator is left at the end of the request path\<close>

lemma str_split_no_separator: "part \<in> set (str_split c s) \<Longrightarrow> c \<notin> set part"
proof (induction s arbitrary: part)
  case Nil
  then show ?case by simp
next
  case (Cons x xs)
  show ?case
  proof (cases "x = c")
    case True
    with Cons show ?thesis by auto
  next
    case False
    with Cons show ?thesis
      by (cases "str_split c xs") auto
  qed
qed

lemma query_part_step_values:
  assumes "values_without c (fst st)" and "c \<notin> set part"
  shows "values_without c (fst (query_part_step st part))"
proof (cases "indexOf CHR ''='' part")
  case None
  with assms show ?thesis by (simp add: query_part_step_def)
next
  case (Some i)
  have "c \<notin> set (drop (i + 1) part)"
    using assms(2) by (meson in_set_dropD)
  with assms(1) set_obj_set [of "take i part" "drop (i + 1) part" "fst st"] Some
  show ?thesis
    by (auto simp: query_part_step_def values_without_def list_all_iff Let_def)
qed

lemma foldl_query_part_step_values:
  "values_without c (fst st) \<Longrightarrow> \<forall>part\<in>set parts. c \<notin> set part
     \<Longrightarrow> values_without c (fst (foldl query_part_step st parts))"
  by (induction parts arbitrary: st) (simp_all add: query_part_step_values)

lemma query_step_values:
  "values_without CHR ''&'' (fst st) \<Longrightarrow> values_without CHR ''&'' (fst (query_step st query))"
  unfolding query_step_def
  by (rule foldl_query_part_step_values) (auto dest: str_split_no_separator)

lemma foldl_query_step_values:
  "values_without CHR ''&'' (fst st)
     \<Longrightarrow> values_without CHR ''&'' (fst (foldl query_step st queries))"
  by (induction queries arbitrary: st) (simp_all add: query_step_values)

lemma coerce_queries_values: "values_without CHR ''&'' (fst (coerce_queries queries))"
  unfolding coerce_queries_def
  by (rule foldl_query_step_values) (simp add: values_without_def)

lemma requestPath_last_char:
  assumes "q \<noteq> []" and "values_without c q" and "c \<noteq> CHR ''=''"
  shows "last (requestPath p q) \<noteq> c"
proof -
  obtain pre where path:
    "requestPath p q = p @ ''?'' @ pre @ fst (last (for_in q)) @ ''='' @ snd (last (for_in q))"
    using requestPath_ends_with_last_pair [OF assms(1)] by blast
  have "for_in q \<noteq> []"
    using assms(1) by (simp add: for_in_Nil_iff)
  then have "last (for_in q) \<in> set q"
    using set_for_in [of q] last_in_set by blast
  then have free: "c \<notin> set (snd (last (for_in q)))"
    using assms(2) by (simp add: values_without_def list_all_iff)
  show ?thesis
  proof (cases "snd (last (for_in q)) = []")
    case True
    with path assms(3) show ?thesis by simp
  next
    case False
    then have "last (requestPath p q) = last (snd (last (for_in q)))"
      by (simp add: path)
    with free False show ?thesis
      using last_in_set by metis
  qed
qed

text \<open>
  Claim C10. For the empty query object the request path is the path of the URL, exactly.
  For every query object the request path does not end in a separator: it is never the
  path of the URL followed by a bare \<open>?\<close>, and when the object has a property the request
  path ends with the text \<open>key=value\<close> of the property visited last, with no \<open>&\<close> after
  it. For the object that the \<open>queries\<close> option yields, whose values hold no \<open>&\<close>, the last
  character of such a path is not \<open>&\<close>.
\<close>

theorem request_path_no_trailing_separator:
  "requestPath p [] = p
   \<and> requestPath p q \<noteq> p @ ''?''
   \<and> (q \<noteq> [] \<longrightarrow>
        (\<exists>pre. requestPath p q
            = p @ ''?'' @ pre @ fst (last (for_in q)) @ ''='' @ snd (last (for_in q))))
   \<and> (fst (coerce_queries qs) \<noteq> [] \<longrightarrow>
        last (requestPath p (fst (coerce_queries qs))) \<noteq> CHR ''&'')"
proof -
  have "requestPath p [] = p"
    by (simp add: requestPath_closed_form for_in_def)
  moreover have "fst (coerce_queries qs) \<noteq> [] \<longrightarrow>
        last (requestPath p (fst (coerce_queries qs))) \<noteq> CHR ''&''"
    using requestPath_last_char [OF _ coerce_queries_values] by simp
  ultimately show ?thesis
    using requestPath_not_bare_question_mark requestPath_ends_with_last_pair by blast
qed

theorem request_path_no_trailing_separator_witness:
  "[(''a'', ''1''), (''b'', ''2'')] \<noteq> ([] :: string obj)
   \<and> fst (coerce_queries [''a=1&b=2'']) \<noteq> []
   \<and> requestPath ''/search'' [(''a'', ''1''), (''b'', ''2'')] = ''/search?a=1&b=2''
   \<and> last (requestPath ''/search'' (fst (coerce_queries [''a=1&b=2'']))) = CHR ''2''"
proof -
  have plain: "for_in [(''a'', ''1''), (''b'', ''2'')] = [(''a'', ''1''), (''b'', ''2'')]"
    by (rule for_in_plain) (simp add: is_array_index_def is_digit_def)
  have "requestPath ''/search'' [(''a'', ''1''), (''b'', ''2'')] = ''/search?a=1&b=2''"
    by (simp add: requestPath_closed_form plain)
  then show ?thesis
    using request_path_no_trailing_separator
      [of "''/search''" "[(''a'', ''1''), (''b'', ''2'')]" "[''a=1&b=2'']"]
    by (simp add: coerce_queries_example)
qed

subsection \<open>Header defaults\<close>



lemma set_defaults_content_type:
  "obj_get headers ''content-type'' = Undefined
     \<Longrightarrow> obj_get (set_defaults ctype n method headers) ''content-type'' = Own (HStr ctype)"
  by (simp add: set_defaults_def Let_def obj_get_obj_set_other obj_get_obj_set_same)

lemmas main_eval =
  main_def setupYargs_def Let_def check_eval coerce_headers_def coerce_queries_def
  sendRequest_def body_defaults_def set_defaults_def obj_get_def obj_set_def
  object_prototype_names_def requestPath_empty





text \<open>
  Claim C6. When the JSON text \<open>{"a":1}\<close> is the body source (\<open>body\<close> is falsy) and the
  caller gave no \<open>content-type\<close> header, \<open>sendRequest\<close> issues the request with the header
  \<open>content-type: application/json\<close> and writes that text as the body.
\<close>

theorem json_body_request:
  assumes "\<not> truthy body" and "obj_get headers ''content-type'' = Undefined"
  shows \<open>\<exists>x. sendRequest pf u method headers queries body (Some ''{"a":1}'') filePath timeout = Inr x
           \<and> obj_get (opt_headers (options x)) ''content-type'' = Own (HStr ''application/json'')
           \<and> written x = Some ''{"a":1}''\<close>
  using assms
  by (simp add: sendRequest_def body_defaults_def set_defaults_content_type)

theorem json_body_request_witness:
  \<open>\<not> truthy None
   \<and> obj_get [(''accept'', HStr ''*/*'')] ''content-type'' = Undefined
   \<and> sendRequest example_platform example_url POST [(''accept'', HStr ''*/*'')] [] None
         (Some ''{"a":1}'') None (Some (Finite 5))
       = Inr \<lparr>options = \<lparr>opt_hostname = ''example.com'', opt_port = ''80'',
                           opt_path = ''/search'',
                           opt_headers = [(''accept'', HStr ''*/*''),
                                          (''content-type'', HStr ''application/json''),
                                          (''content-length'', HNum 7)],
                           opt_method = POST, opt_timeout = Some (Finite 5)\<rparr>,
               written = Some ''{"a":1}''\<rparr>\<close>
  using json_body_request
    [of None "[(''accept'', HStr ''*/*'')]" example_platform example_url POST "[]" None
        "Some (Finite 5)"]
  by (simp add: sendRequest_def body_defaults_def set_defaults_def obj_get_def obj_set_def
      object_prototype_names_def requestPath_empty example_platform_def example_url_def)

subsection \<open>The \<open>headers\<close> option\<close>

lemma overwrite_line_eq_iff: "overwrite_line k' = overwrite_line k \<longleftrightarrow> k' = k"
  by (simp add: overwrite_line_def logWARN_def)

lemma invalid_line_neq: "invalid_line h \<noteq> overwrite_line k"
  by (simp add: overwrite_line_def invalid_line_def logWARN_def)

lemma header_step_by_key:
  "header_step pf st header =
     (case header_key pf header of
        None \<Rightarrow> (fst st, snd st @ [invalid_line header])
      | Some key \<Rightarrow>
          (obj_set key (HStr (header_value header)) (fst st),
           if obj_get (fst st) key \<noteq> Undefined
           then snd st @ [overwrite_line key] else snd st))"
  by (simp add: header_step_def header_key_def header_value_def Let_def invalid_line_def
      overwrite_line_def split: option.split)

lemma overwrite_warnings_count: "overwrite_warnings k out = count_list out (overwrite_line k)"
  by (simp add: overwrite_warnings_def overwrite_line_def)

lemma headers_loop_invariant:
  assumes "k \<notin> set object_prototype_names"
  shows "obj_get (fst (foldl (header_step pf) ([], []) hs)) k
           = (if filter (\<lambda>h. header_key pf h = Some k) hs = [] then Undefined
              else Own (HStr (header_value (last (filter (\<lambda>h. header_key pf h = Some k) hs)))))
         \<and> overwrite_warnings k (snd (foldl (header_step pf) ([], []) hs))
           = length (filter (\<lambda>h. header_key pf h = Some k) hs) - 1"
proof (induction hs rule: rev_induct)
  case Nil
  from assms show ?case
    by (simp add: not_inherited_get overwrite_warnings_def)
next
  case (snoc h hs)
  define st where "st = foldl (header_step pf) ([], []) hs"
  define occ where "occ = filter (\<lambda>h. header_key pf h = Some k) hs"
  have step: "foldl (header_step pf) ([], []) (hs @ [h]) = header_step pf st h"
    by (simp add: st_def)
  have get: "obj_get (fst st) k
               = (if occ = [] then Undefined else Own (HStr (header_value (last occ))))"
    and cnt: "count_list (snd st) (overwrite_line k) = length occ - 1"
    using snoc by (simp_all add: st_def occ_def overwrite_warnings_count)
  note proto = not_inherited_not_proto [OF assms]
  show ?case
  proof (cases "header_key pf h")
    case None
    then have hs': "header_step pf st h = (fst st, snd st @ [invalid_line h])"
      and occ': "filter (\<lambda>h. header_key pf h = Some k) (hs @ [h]) = occ"
      by (simp_all add: header_step_by_key occ_def)
    show ?thesis
      unfolding step occ' hs' using get cnt
      by (simp add: overwrite_warnings_count invalid_line_neq)
  next
    case (Some k')
    show ?thesis
    proof (cases "k' = k")
      case True
      with Some have occ': "filter (\<lambda>h. header_key pf h = Some k) (hs @ [h]) = occ @ [h]"
        by (simp add: occ_def)
      from True Some have hs':
        "header_step pf st h
           = (obj_set k (HStr (header_value h)) (fst st),
              if occ = [] then snd st else snd st @ [overwrite_line k])"
        by (simp add: header_step_by_key get)
      show ?thesis
        unfolding step occ' hs' using cnt proto
        by (cases "occ = []") (simp_all add: overwrite_warnings_count obj_get_obj_set_same)
    next
      case False
      with Some have occ': "filter (\<lambda>h. header_key pf h = Some k) (hs @ [h]) = occ"
        by (simp add: occ_def)
      from Some have hs':
        "header_step pf st h
           = (obj_set k' (HStr (header_value h)) (fst st),
              if obj_get (fst st) k' \<noteq> Undefined
              then snd st @ [overwrite_line k'] else snd st)"
        by (simp add: header_step_by_key)
      show ?thesis
        unfolding step occ' hs' using False get cnt
        by (simp add: overwrite_warnings_count obj_get_obj_set_other overwrite_line_eq_iff)
    qed
  qed
qed

text \<open>
  Three headers for one key: the object holds the third value and two warnings are printed.
  A key that \<open>Object.prototype\<close> has as well is reported as overwritten the first time
  already.
\<close>

lemma header_three_values_eval:
  "coerce_headers example_platform [''k:v1'', ''k:v2'', ''k:v3'']
     = ([(''k'', HStr ''v3'')],
        [''WARNING: Overwriting header key for k'', ''WARNING: Overwriting header key for k''])"
  by (simp add: header_eval)

lemma header_constructor_eval:
  "coerce_headers example_platform [''constructor:v1'', ''Constructor:v2'']
     = ([(''constructor'', HStr ''v2'')],
        [''WARNING: Overwriting header key for constructor'', ''WARNING: Overwriting header key for constructor''])"
  by (simp add: header_eval)

text \<open>
  Claim C8, as stated, at the list \<open>k:v1, k:v2, k:v3\<close>, which holds \<open>k:v1\<close> followed later
  by \<open>k:v2\<close>: the object does not map \<open>k\<close> to \<open>v2\<close>, and the number of overwrite warnings
  for \<open>k\<close> is not one.
\<close>

theorem header_three_values_counterexample:
  "obj_get (fst (coerce_headers example_platform [''k:v1'', ''k:v2'', ''k:v3''])) ''k''
     \<noteq> Own (HStr ''v2'')
   \<and> overwrite_warnings ''k''
         (snd (coerce_headers example_platform [''k:v1'', ''k:v2'', ''k:v3''])) \<noteq> 1"
  by (simp add: header_eval)

text \<open>
  Claim C8, amended. Let \<open>k\<close> be a lowercased key that is not the name of a member of
  \<open>Object.prototype\<close>, and let at least one header of the list have the key \<open>k\<close> up to
  letter case, that is, \<open>toLowerCase\<close> of the platform turns the text before its first colon
  into \<open>k\<close>. Then the object maps \<open>k\<close> to the value of the last such header, and the
  number of overwrite warnings printed for \<open>k\<close> is the number of such headers less one: one
  warning when \<open>k:v1\<close> and, later, \<open>k:v2\<close> are the only two.
\<close>

theorem header_last_value_wins:
  assumes "k \<notin> set object_prototype_names"
      and "filter (\<lambda>h. header_key pf h = Some k) hs \<noteq> []"
  shows "obj_get (fst (coerce_headers pf hs)) k
           = Own (HStr (header_value (last (filter (\<lambda>h. header_key pf h = Some k) hs))))
         \<and> overwrite_warnings k (snd (coerce_headers pf hs))
           = length (filter (\<lambda>h. header_key pf h = Some k) hs) - 1"
  using headers_loop_invariant [OF assms(1), of pf hs] assms(2)
  by (simp add: coerce_headers_def)

theorem header_last_value_wins_witness:
  "''accept'' \<notin> set object_prototype_names
   \<and> filter (\<lambda>h. header_key example_platform h = Some ''accept'')
         [''Accept:v1'', ''x-id:7'', ''nocolon'', ''ACCEPT:v2'']
       = [''Accept:v1'', ''ACCEPT:v2'']
   \<and> obj_get
         (fst (coerce_headers example_platform
                 [''Accept:v1'', ''x-id:7'', ''nocolon'', ''ACCEPT:v2'']))
         ''accept'' = Own (HStr ''v2'')
   \<and> overwrite_warnings ''accept''
         (snd (coerce_headers example_platform
                 [''Accept:v1'', ''x-id:7'', ''nocolon'', ''ACCEPT:v2''])) = 1"
  using header_last_value_wins
    [of "''accept''" example_platform "[''Accept:v1'', ''x-id:7'', ''nocolon'', ''ACCEPT:v2'']"]
  by (simp add: header_key_def header_value_def example_platform_def ascii_toLowerCase_def
      ascii_toLowerCase_char_def char_of_eq_iff char_eq_char_of_iff
      object_prototype_names_def)

subsection \<open>The checks\<close>

lemma snd_run_checks:
  "snd (run_checks cs) = None \<longleftrightarrow> list_all (\<lambda>c. snd c = None) cs"
  by (induction cs) (auto split: option.split)

lemma run_checks_first_error:
  "snd c = Some e \<Longrightarrow> snd (run_checks (c # cs)) = Some e"
  by simp

lemma run_checks_skip:
  "snd c = None \<Longrightarrow> snd (run_checks (c # cs)) = snd (run_checks cs)"
  by simp

lemma snd_setupYargs:
  "snd (setupYargs pf raw) =
     (case snd (run_checks
                [check_url pf (raw_positional raw),
                 check_data (raw_data raw) (raw_json raw) (raw_file raw),
                 check_json pf (raw_data raw) (raw_json raw) (raw_file raw),
                 check_file pf (raw_data raw) (raw_json raw) (raw_file raw),
                 check_timeout (raw_timeout raw)]) of
        Some e \<Rightarrow> Inl e
      | None \<Rightarrow> Inr \<lparr>arg_positional = raw_positional raw, arg_method = raw_method raw,
                     arg_headers = fst (coerce_headers pf (raw_headers raw)),
                     arg_queries = fst (coerce_queries (raw_queries raw)),
                     arg_data = raw_data raw, arg_json = raw_json raw, arg_file = raw_file raw,
                     arg_body = raw_body raw, arg_timeout = raw_timeout raw\<rparr>)"
  by (simp add: setupYargs_def Let_def)

lemma main_no_request_on_failure:
  "snd (setupYargs pf raw) = Inl e \<Longrightarrow> sent (main pf raw) = None"
  by (cases "setupYargs pf raw") (simp add: main_def)

lemma conflict_found:
  assumes "conflicting raw"
  shows "\<exists>m. snd (run_checks
                [check_data (raw_data raw) (raw_json raw) (raw_file raw),
                 check_json pf (raw_data raw) (raw_json raw) (raw_file raw),
                 check_file pf (raw_data raw) (raw_json raw) (raw_file raw),
                 check_timeout (raw_timeout raw)]) = Some (ConflictingOptions m)"
proof (cases "raw_data raw")
  case None
  with assms have "raw_json raw \<noteq> None" "raw_file raw \<noteq> None"
    by (auto simp: conflicting_def)
  with None show ?thesis
    by (simp add: check_data_def check_json_def)
next
  case (Some d)
  with assms show ?thesis
    by (auto simp: conflicting_def check_data_def)
qed

lemma check_url_passes:
  "snd (check_url pf us) = None \<Longrightarrow> \<exists>arg u. us = [arg] \<and> new_URL pf arg = Inr u"
  by (auto simp: check_url_def split: list.splits sum.splits)

lemma check_file_passes:
  "snd (check_file pf data json file) = None \<Longrightarrow> file = Some f
     \<Longrightarrow> \<exists>bytes. readFileSync pf f = Inr bytes"
  by (auto simp: check_file_def split: if_splits sum.splits)

lemma setupYargs_passes:
  assumes "snd (setupYargs pf raw) = Inr a"
  shows "snd (check_url pf (raw_positional raw)) = None"
    and "snd (check_file pf (raw_data raw) (raw_json raw) (raw_file raw)) = None"
    and "a = \<lparr>arg_positional = raw_positional raw, arg_method = raw_method raw,
               arg_headers = fst (coerce_headers pf (raw_headers raw)),
               arg_queries = fst (coerce_queries (raw_queries raw)),
               arg_data = raw_data raw, arg_json = raw_json raw, arg_file = raw_file raw,
               arg_body = raw_body raw, arg_timeout = raw_timeout raw\<rparr>"
  using assms unfolding snd_setupYargs
  by (auto simp: snd_run_checks split: option.splits)

lemma sendRequest_returns:
  assumes "truthy body \<or> truthy json \<or> \<not> truthy filePath
             \<or> (\<exists>bytes. readFileSync pf (text_of filePath) = Inr bytes)"
  shows "\<exists>x. sendRequest pf u method headers queries body json filePath timeout = Inr x
           \<and> opt_path (options x) = requestPath (pathname u) queries"
  using assms by (auto simp: sendRequest_def body_defaults_def)

text \<open>
  Claim C1: the timeout is optional, and validation fails exactly when a timeout that was
  given is not numeric. The code at \<open>nurl http://example.com/search?x=1\<close>, where no
  timeout is given: the check of the timeout throws, so the run prints the message and
  issues no request.
\<close>

theorem omitted_timeout_rejected:
  "check_timeout None = ([], Some (InvalidArgument ''ERROR: Timeout must be a number''))
   \<and> main example_platform (example_argv\<lparr>raw_timeout := None\<rparr>)
       = \<lparr>printed = [''ERROR: Timeout must be a number''], sent = None\<rparr>"
  by (simp add: main_eval)

text \<open>
  Claim C2: when \<open>--data\<close> is the body source, the text given is written as the body of the
  request. The code at \<open>nurl http://example.com/search?x=1 --method POST --data a=1
  --timeout 5\<close>: \<open>main\<close> hands \<open>args.body\<close> to \<open>sendRequest\<close>, not \<open>args.data\<close>, so the
  request goes out with no \<open>content-type\<close> and nothing is written.
\<close>

theorem data_option_not_sent:
  "main example_platform (example_argv\<lparr>raw_method := POST, raw_data := Some ''a=1''\<rparr>)
     = \<lparr>printed = [],
        sent = Some \<lparr>options = \<lparr>opt_hostname = ''example.com'', opt_port = ''80'',
                                  opt_path = ''/search'', opt_headers = [], opt_method = POST,
                                  opt_timeout = Some (Finite 5)\<rparr>,
                      written = None\<rparr>\<rparr>"
  by (simp add: main_eval)

text \<open>
  Claim C3, as stated, at a command line that gives \<open>--data\<close> and \<open>--json\<close> and no URL:
  the check of the URL runs first, and validation fails with its error, not with the one
  for conflicting options.
\<close>

theorem conflict_without_url_counterexample:
  "snd (setupYargs example_platform
          (example_argv\<lparr>raw_positional := [], raw_data := Some ''a=1'',
                         raw_json := Some ''{}''\<rparr>))
     = Inl (InvalidArgument ''ERROR: You must provide a url'')"
  by (simp add: snd_setupYargs check_eval)

text \<open>
  Claim C3, amended. On every command line that gives two or more of \<open>data\<close>, \<open>json\<close> and
  \<open>file\<close>, validation fails and no request is issued; the failure is the one for
  conflicting options whenever the check of the URL, which runs first, passes.
\<close>

theorem conflicting_body_options_rejected:
  assumes "conflicting raw"
  shows "(\<exists>e. snd (setupYargs pf raw) = Inl e)
         \<and> sent (main pf raw) = None
         \<and> (snd (check_url pf (raw_positional raw)) = None \<longrightarrow>
              (\<exists>m. snd (setupYargs pf raw) = Inl (ConflictingOptions m)))"
proof -
  obtain m where conflict:
    "snd (run_checks
            [check_data (raw_data raw) (raw_json raw) (raw_file raw),
             check_json pf (raw_data raw) (raw_json raw) (raw_file raw),
             check_file pf (raw_data raw) (raw_json raw) (raw_file raw),
             check_timeout (raw_timeout raw)]) = Some (ConflictingOptions m)"
    using conflict_found [OF assms] by blast
  have fails: "\<exists>e. snd (setupYargs pf raw) = Inl e"
  proof (cases "snd (check_url pf (raw_positional raw))")
    case None
    then show ?thesis
      unfolding snd_setupYargs run_checks_skip [OF None] conflict by simp
  next
    case (Some e)
    then show ?thesis
      unfolding snd_setupYargs run_checks_first_error [OF Some] by simp
  qed
  then have "sent (main pf raw) = None"
    using main_no_request_on_failure by blast
  moreover have "snd (check_url pf (raw_positional raw)) = None \<longrightarrow>
              (\<exists>m. snd (setupYargs pf raw) = Inl (ConflictingOptions m))"
  proof
    assume ok: "snd (check_url pf (raw_positional raw)) = None"
    show "\<exists>m. snd (setupYargs pf raw) = Inl (ConflictingOptions m)"
      unfolding snd_setupYargs run_checks_skip [OF ok] conflict by simp
  qed
  ultimately show ?thesis
    using fails by blast
qed

theorem conflicting_body_options_rejected_witness:
  "conflicting (example_argv\<lparr>raw_data := Some ''a=1'', raw_json := Some ''{}''\<rparr>)
   \<and> snd (check_url example_platform
            (raw_positional (example_argv\<lparr>raw_data := Some ''a=1'', raw_json := Some ''{}''\<rparr>)))
       = None
   \<and> snd (setupYargs example_platform
            (example_argv\<lparr>raw_data := Some ''a=1'', raw_json := Some ''{}''\<rparr>))
       = Inl (ConflictingOptions
           ''ERROR: Simultaneous usage of data and json or data and file is not permitted'')
   \<and> sent (main example_platform
             (example_argv\<lparr>raw_data := Some ''a=1'', raw_json := Some ''{}''\<rparr>)) = None"
  using conflicting_body_options_rejected
    [of "example_argv\<lparr>raw_data := Some ''a=1'', raw_json := Some ''{}''\<rparr>" example_platform]
  by (simp add: conflicting_def snd_setupYargs check_eval)

text \<open>
  Claim C9. On a command line without \<open>--queries\<close> that passes validation, the request is
  issued and its path is the \<open>pathname\<close> of the URL given, whatever the \<open>search\<close> part of
  that URL is; \<open>sendRequest\<close> never reads the \<open>search\<close> part.
\<close>

theorem url_query_string_discarded:
  assumes "raw_queries raw = []" and "snd (setupYargs pf raw) = Inr a"
  shows "(\<exists>arg u x. raw_positional raw = [arg] \<and> new_URL pf arg = Inr u
            \<and> sent (main pf raw) = Some x \<and> opt_path (options x) = pathname u)
         \<and> sendRequest pf (u'\<lparr>search := s\<rparr>) method headers queries body json filePath timeout
             = sendRequest pf u' method headers queries body json filePath timeout"
proof -
  note passes = setupYargs_passes [OF assms(2)]
  obtain arg u where arg: "raw_positional raw = [arg]" and u: "new_URL pf arg = Inr u"
    using check_url_passes [OF passes(1)] by blast
  have "truthy (raw_body raw) \<or> truthy (raw_json raw) \<or> \<not> truthy (raw_file raw)
          \<or> (\<exists>bytes. readFileSync pf (text_of (raw_file raw)) = Inr bytes)"
  proof (cases "raw_file raw")
    case None
    then show ?thesis by simp
  next
    case (Some f)
    then show ?thesis
      using check_file_passes [OF passes(2) Some] by simp
  qed
  then obtain x where
    x: "sendRequest pf u (raw_method raw) (fst (coerce_headers pf (raw_headers raw)))
          (fst (coerce_queries [])) (raw_body raw) (raw_json raw) (raw_file raw)
          (raw_timeout raw) = Inr x"
    and path: "opt_path (options x) = requestPath (pathname u) (fst (coerce_queries []))"
    using sendRequest_returns by blast
  obtain out where "setupYargs pf raw = (out, Inr a)"
    using assms(2) by (cases "setupYargs pf raw") simp
  then have "main pf raw = \<lparr>printed = out, sent = Some x\<rparr>"
    using arg u x assms(1) passes(3) by (simp add: main_def)
  then have "sent (main pf raw) = Some x \<and> opt_path (options x) = pathname u"
    using path by (simp add: requestPath_no_queries)
  moreover have
    "sendRequest pf (u'\<lparr>search := s\<rparr>) method headers queries body json filePath timeout
       = sendRequest pf u' method headers queries body json filePath timeout"
    by (simp add: sendRequest_def split: sum.split prod.split)
  ultimately show ?thesis
    using arg u by blast
qed

theorem url_query_string_discarded_witness:
  "raw_queries example_argv = []
   \<and> new_URL example_platform ''http://example.com/search?x=1''
       = Inr \<lparr>hostname = ''example.com'', port = [], pathname = ''/search'',
               search = ''?x=1''\<rparr>
   \<and> sent (main example_platform example_argv)
       = Some \<lparr>options = \<lparr>opt_hostname = ''example.com'', opt_port = ''80'',
                            opt_path = ''/search'', opt_headers = [], opt_method = GET,
                            opt_timeout = Some (Finite 5)\<rparr>,
                written = None\<rparr>"
  using url_query_string_discarded [of example_argv example_platform]
  by (simp add: main_eval)

subsection \<open>Rendering the response\<close>

text \<open>
  Claim C4: for a GET request answered by \<open>200 OK\<close>, one header and the body \<open>hello\<close>, the
  lines printed are the banner, \<open>METHOD: GET\<close>, \<open>STATUS: 200 - OK\<close>, the header line and
  \<open>BODY: hello\<close>. The code on the response to such a request, whose \<open>method\<close> is \<open>null\<close>:
  the method line reads \<open>METHOD: null\<close>. (An empty line comes first and a line \<open>HEADERS: \<close>
  stands before the header lines.)
\<close>

theorem response_method_printed_as_null:
  "on_end \<lparr>res_method = None, statusCode = 200, statusMessage = ''OK'',
           res_headers = [(''content-type'', ''text/plain'')]\<rparr> [''hello'']
     = [[],
        ''-----------------RESPONSE-------------------'',
        ''METHOD: null'',
        ''STATUS: 200 - OK'',
        ''HEADERS: '',
        [CHR 0x09] @ ''content-type: text/plain'',
        ''BODY: hello'']"
  by (simp add: on_end_def for_in_def is_array_index_def is_digit_def char_of_eq_iff)

end
